theory Spec2Isabelle
  imports Main "HOL-Library.AList" "HOL-Library.Sublist"
begin

section \<open>Roleplay API: session scores, stage detection and the shared transcript\<close>

text \<open>
  A shallow embedding of \<^verbatim>\<open>src/app.py\<close>. The module-level globals
  (\<^verbatim>\<open>chat_history\<close>, \<^verbatim>\<open>product_data\<close>, \<^verbatim>\<open>role_scripts\<close>,
  \<^verbatim>\<open>session_scores\<close>) are the fields of one state record that every handler
  takes and returns. What the process does not decide itself is a parameter: the
  generative model behind \<^verbatim>\<open>model.generate_content\<close>, the content of the product
  and script files, and the identifier drawn by \<^verbatim>\<open>uuid4\<close>.

  Text is \<^typ>\<open>string\<close>, one \<^typ>\<open>char\<close> per byte of its UTF-8 encoding.
  \<^verbatim>\<open>str.strip\<close> and \<^verbatim>\<open>str.lower\<close> are modelled on the ASCII range, which holds
  the seven stage labels; bytes outside it are carried through unchanged.

  Requests are handled one after the other: a handler runs to its end before the next
  one starts. The product file, when it is read, holds a list of rows, each a dictionary
  (what \<^verbatim>\<open>csv.DictReader\<close> yields, and a JSON array of objects).
\<close>

subsection \<open>Text helpers\<close>

definition nl :: string where
  "nl = [CHR 0x0A]"

definition dq :: string where
  "dq = [CHR 0x22]"

text \<open>\<^verbatim>\<open>sep.join(xs)\<close>\<close>

fun join :: "string \<Rightarrow> string list \<Rightarrow> string" where
  "join sep [] = []"
| "join sep [x] = x"
| "join sep (x # y # ys) = x @ sep @ join sep (y # ys)"

text \<open>\<^verbatim>\<open>s.split("\n")\<close>: always at least one piece.\<close>

fun split_nl :: "string \<Rightarrow> string list" where
  "split_nl [] = [[]]"
| "split_nl (c # cs) =
     (if c = CHR 0x0A then [] # split_nl cs
      else (case split_nl cs of [] \<Rightarrow> [[c]] | l # ls \<Rightarrow> (c # l) # ls))"

definition isspace :: "char \<Rightarrow> bool" where
  "isspace c = (let n = (of_char c :: nat) in (9 \<le> n \<and> n \<le> 13) \<or> (28 \<le> n \<and> n \<le> 32))"

definition strip :: "string \<Rightarrow> string" where
  "strip s = rev (dropWhile isspace (rev (dropWhile isspace s)))"

definition lower_char :: "char \<Rightarrow> char" where
  "lower_char c = (let n = (of_char c :: nat) in if 65 \<le> n \<and> n \<le> 90 then char_of (n + 32) else c)"

definition lower :: "string \<Rightarrow> string" where
  "lower s = map lower_char s"

subsection \<open>Data\<close>

text \<open>\<^verbatim>\<open>role: Literal["seller", "buyer"]\<close>\<close>

datatype role = Seller | Buyer

fun role_str :: "role \<Rightarrow> string" where
  "role_str Seller = ''seller''"
| "role_str Buyer = ''buyer''"

text \<open>A transcript entry \<^verbatim>\<open>{"role": r, "parts": ps}\<close>.\<close>

datatype turn = Turn (turn_role: string) (turn_parts: "string list")

text \<open>
  A product row is a dictionary from field names to values; a value is kept as the text
  that an f-string prints for it.
\<close>

type_synonym product = "(string \<times> string) list"

text \<open>A scoreboard is the dictionary built by \<^verbatim>\<open>start_session\<close>, in insertion order.\<close>

type_synonym scoreboard = "(string \<times> int) list"

text \<open>
  \<^verbatim>\<open>model.generate_content\<close> is called with an instruction string (stage detection)
  or with the transcript (reply generation).
\<close>

datatype gen_input = Instruction string | Transcript "turn list"

text \<open>
  The generative model: given the calls made so far and the present one, either the
  text of the response (\<open>Inr\<close>) or the message of the exception raised by the call or
  by reading \<^verbatim>\<open>response.text\<close> (\<open>Inl\<close>).
\<close>

type_synonym collaborator = "gen_input list \<Rightarrow> gen_input \<Rightarrow> string + string"

text \<open>
  The surroundings of the process: the model, the rows read from
  \<^verbatim>\<open>products.json\<close> or \<^verbatim>\<open>products.csv\<close> (\<open>None\<close> when neither file exists or
  reading raises), and the content of each role's script file (\<open>None\<close> when it is
  absent or reading raises).
\<close>

record env =
  generate_content :: collaborator
  products_file :: "product list option"
  script_file :: "role \<Rightarrow> string option"

text \<open>
  The globals of the module, and the list of calls made to the model so far
  (\<open>generation_calls\<close> records an effect of the code, it is not a variable of it).
\<close>

record state =
  chat_history :: "turn list"
  product_data :: "product list"
  role_scripts :: "role \<Rightarrow> string list"
  session_scores :: "string \<rightharpoonup> scoreboard"
  generation_calls :: "gen_input list"

text \<open>
  What a handler raises: the \<^verbatim>\<open>HTTPException\<close> of the code, or a \<^verbatim>\<open>KeyError\<close> of a
  dictionary lookup that no handler catches.
\<close>

datatype http_error = HTTPException (status_code: nat) (detail: string) | KeyError string

text \<open>
  The body of \<^verbatim>\<open>POST /chat\<close> (\<^verbatim>\<open>ChatInput\<close>); an omitted \<^verbatim>\<open>stage\<close> arrives
  as \<^verbatim>\<open>"auto"\<close>.
\<close>

record chat_input =
  ci_prompt :: string
  ci_role :: role
  ci_session_id :: string
  ci_stage :: string

record chat_response =
  cr_session_id :: string
  cr_response :: string
  cr_scores :: scoreboard

record scores_response =
  sr_session_id :: string
  sr_scores :: scoreboard

subsection \<open>Loading local files\<close>

definition load_local_product_data :: "env \<Rightarrow> state \<Rightarrow> state" where
  "load_local_product_data e st =
     (case products_file e of
        Some rows \<Rightarrow> st\<lparr>product_data := rows\<rparr>
      | None \<Rightarrow> st)"

definition load_script :: "env \<Rightarrow> role \<Rightarrow> state \<Rightarrow> state" where
  "load_script e r st =
     (case script_file e r of
        Some content \<Rightarrow> st\<lparr>role_scripts := (role_scripts st)(r := split_nl (strip content))\<rparr>
      | None \<Rightarrow> st)"

definition load_local_scripts :: "env \<Rightarrow> state \<Rightarrow> state" where
  "load_local_scripts e st = load_script e Buyer (load_script e Seller st)"

text \<open>The state after the module has been imported.\<close>

definition startup :: "env \<Rightarrow> state" where
  "startup e =
     load_local_scripts e (load_local_product_data e
       \<lparr>chat_history = [], product_data = [], role_scripts = (\<lambda>r. []),
        session_scores = Map.empty, generation_calls = []\<rparr>)"

subsection \<open>Stage detection\<close>

definition stage_labels :: "string list" where
  "stage_labels = [''opening'', ''discovery'', ''presentation'', ''objection_handling'',
     ''closing'', ''follow_up'', ''general'']"

definition call_model :: "env \<Rightarrow> gen_input \<Rightarrow> state \<Rightarrow> (string + string) \<times> state" where
  "call_model e inp st =
     (generate_content e (generation_calls st) inp,
      st\<lparr>generation_calls := generation_calls st @ [inp]\<rparr>)"

definition stage_prompt :: "string \<Rightarrow> role \<Rightarrow> string" where
  "stage_prompt p r =
     ''You are a role-play assistant in a '' @ role_str r
       @ '' scenario. Based on the following input, identify the stage:'' @ nl
     @ ''Options: opening, discovery, presentation, objection_handling, closing, follow_up, general'' @ nl
     @ ''Input: '' @ dq @ p @ dq @ nl
     @ ''Return only the stage name.''"

definition detect_conversation_stage :: "env \<Rightarrow> string \<Rightarrow> role \<Rightarrow> state \<Rightarrow> string \<times> state" where
  "detect_conversation_stage e p r st =
     (case call_model e (Instruction (stage_prompt p r)) st of
        (Inr text, st') \<Rightarrow>
          (let detected = lower (strip text)
           in (if detected \<in> set stage_labels then detected else ''general'', st'))
      | (Inl err, st') \<Rightarrow> (''general'', st'))"

subsection \<open>Scores\<close>

definition update_stage_score :: "string \<Rightarrow> string \<Rightarrow> state \<Rightarrow> state" where
  "update_stage_score stg sid st =
     (case session_scores st sid of
        Some board \<Rightarrow>
          (if stg \<in> set (map fst board)
           then st\<lparr>session_scores :=
                  (session_scores st)(sid \<mapsto> AList.map_entry stg (\<lambda>n. n + 1) board)\<rparr>
           else st)
      | None \<Rightarrow> st)"

subsection \<open>Composing the prompt and generating the reply\<close>

text \<open>\<^verbatim>\<open>p.get(key, default)\<close>\<close>

definition get_field :: "product \<Rightarrow> string \<Rightarrow> string \<Rightarrow> string" where
  "get_field p k d = (case map_of p k of Some v \<Rightarrow> v | None \<Rightarrow> d)"

definition context_text :: "role \<Rightarrow> string \<Rightarrow> string" where
  "context_text r stg =
     ''You are a '' @ role_str r @ ''. You are in the '' @ stg @ '' stage of the role-play.''"

definition product_entry :: "product \<Rightarrow> string" where
  "product_entry p =
     ''- '' @ get_field p ''name'' ''Unknown'' @ '' ($'' @ get_field p ''price'' ''N/A'' @ '')''
     @ nl @ ''  '' @ get_field p ''description'' ''''"

definition products_text :: "product list \<Rightarrow> string" where
  "products_text rows =
     (let joined = join (nl @ nl) (map product_entry (take 5 rows))
      in if joined = [] then ''No product data.'' else joined)"

definition script_section :: "string list \<Rightarrow> string" where
  "script_section script =
     (if script \<noteq> [] then nl @ nl @ ''Script:'' @ nl @ join nl script else '''')"

definition full_prompt :: "role \<Rightarrow> string \<Rightarrow> product list \<Rightarrow> string list \<Rightarrow> string \<Rightarrow> string" where
  "full_prompt r stg rows script p =
     context_text r stg @ nl @ nl @ ''Products:'' @ nl @ products_text rows
     @ script_section script @ nl @ nl @ ''User: '' @ p @ nl @ ''Respond naturally.''"

text \<open>The cross mark U+274C that opens the error marker, in UTF-8.\<close>

definition cross_mark :: string where
  "cross_mark = [CHR 0xE2, CHR 0x9D, CHR 0x8C]"

definition error_marker :: "string \<Rightarrow> string" where
  "error_marker reason = cross_mark @ '' Response error: '' @ reason"

text \<open>Lines 90-91: an empty catalog is read again from the files.\<close>

definition ensure_products :: "env \<Rightarrow> state \<Rightarrow> state" where
  "ensure_products e st = (if product_data st = [] then load_local_product_data e st else st)"

text \<open>Lines 93-94: the sentinel \<^verbatim>\<open>"auto"\<close> is replaced by the detected stage.\<close>

definition resolve_stage :: "env \<Rightarrow> string \<Rightarrow> string \<Rightarrow> role \<Rightarrow> state \<Rightarrow> string \<times> state" where
  "resolve_stage e p stg r st =
     (if stg = ''auto'' then detect_conversation_stage e p r st else (stg, st))"

definition generate_response ::
  "env \<Rightarrow> string \<Rightarrow> string \<Rightarrow> role \<Rightarrow> string \<Rightarrow> state \<Rightarrow> string \<times> state" where
  "generate_response e p stg r sid st =
     (let st1 = ensure_products e st;
          (stg', st2) = resolve_stage e p stg r st1;
          st3 = update_stage_score stg' sid st2;
          fp = full_prompt r stg' (product_data st3) (role_scripts st3 r) p;
          st4 = st3\<lparr>chat_history := chat_history st3 @ [Turn ''user'' [fp]]\<rparr>
      in (case call_model e (Transcript (chat_history st4)) st4 of
            (Inr text, st5) \<Rightarrow>
              (text, st5\<lparr>chat_history := chat_history st5 @ [Turn ''model'' [text]]\<rparr>)
          | (Inl err, st5) \<Rightarrow> (error_marker err, st5)))"

subsection \<open>Endpoints\<close>

definition zero_scores :: scoreboard where
  "zero_scores = [(''opening'', 0), (''discovery'', 0), (''presentation'', 0),
     (''objection_handling'', 0), (''closing'', 0), (''follow_up'', 0), (''general'', 0)]"

text \<open>\<^verbatim>\<open>GET /start\<close>; \<open>sid\<close> is the text of the identifier drawn by \<^verbatim>\<open>uuid4\<close>.\<close>

definition start_session :: "string \<Rightarrow> state \<Rightarrow> string \<times> state" where
  "start_session sid st = (sid, st\<lparr>session_scores := (session_scores st)(sid \<mapsto> zero_scores)\<rparr>)"

definition invalid_session :: http_error where
  "invalid_session = HTTPException 400 ''Invalid session ID''"

text \<open>\<^verbatim>\<open>POST /chat\<close>\<close>

definition chat_handler :: "env \<Rightarrow> chat_input \<Rightarrow> state \<Rightarrow> (http_error + chat_response) \<times> state" where
  "chat_handler e d st =
     (if session_scores st (ci_session_id d) = None then (Inl invalid_session, st)
      else
        (case generate_response e (ci_prompt d) (ci_stage d) (ci_role d) (ci_session_id d) st of
           (response, st') \<Rightarrow>
             (case session_scores st' (ci_session_id d) of
                Some board \<Rightarrow>
                  (Inr \<lparr>cr_session_id = ci_session_id d, cr_response = response,
                        cr_scores = board\<rparr>, st')
              | None \<Rightarrow> (Inl (KeyError (ci_session_id d)), st'))))"

text \<open>\<^verbatim>\<open>GET /scores\<close>\<close>

definition get_scores :: "string \<Rightarrow> state \<Rightarrow> http_error + scores_response" where
  "get_scores sid st =
     (case session_scores st sid of
        None \<Rightarrow> Inl invalid_session
      | Some board \<Rightarrow> Inr \<lparr>sr_session_id = sid, sr_scores = board\<rparr>)"

subsection \<open>Runs of the service\<close>

datatype request = Start string | Chat env chat_input | Scores string | Root

fun handle :: "request \<Rightarrow> state \<Rightarrow> state" where
  "handle (Start sid) st = snd (start_session sid st)"
| "handle (Chat e d) st = snd (chat_handler e d st)"
| "handle (Scores sid) st = st"
| "handle Root st = st"

fun run :: "request list \<Rightarrow> state \<Rightarrow> state" where
  "run [] st = st"
| "run (q # qs) st = run qs (handle q st)"

fun created :: "request list \<Rightarrow> string set" where
  "created [] = {}"
| "created (Start sid # qs) = insert sid (created qs)"
| "created (q # qs) = created qs"

subsection \<open>Names for the intermediate values of a chat request\<close>

text \<open>
  The properties below speak about values that \<open>generate_response\<close> computes on its
  way: the stage it works with after line 94, the text it puts into the user turn
  (\<^verbatim>\<open>full_prompt\<close>, line 105), and what the model answers to the call of line 111.
  Each is written here with the definitions above; lemma \<open>generate_response_chat\<close>
  shows that they are the values the function uses.
\<close>

definition resolved_stage :: "env \<Rightarrow> chat_input \<Rightarrow> state \<Rightarrow> string" where
  "resolved_stage e d st =
     fst (resolve_stage e (ci_prompt d) (ci_stage d) (ci_role d) (ensure_products e st))"

definition composed_prompt :: "env \<Rightarrow> chat_input \<Rightarrow> state \<Rightarrow> string" where
  "composed_prompt e d st =
     full_prompt (ci_role d) (resolved_stage e d st) (product_data (ensure_products e st))
       (role_scripts st (ci_role d)) (ci_prompt d)"

definition reply_outcome :: "env \<Rightarrow> chat_input \<Rightarrow> state \<Rightarrow> string + string" where
  "reply_outcome e d st =
     generate_content e
       (generation_calls
          (snd (resolve_stage e (ci_prompt d) (ci_stage d) (ci_role d) (ensure_products e st))))
       (Transcript (chat_history st @ [Turn ''user'' [composed_prompt e d st]]))"

text \<open>Every scoreboard of the store has the seven labels as its keys, in order.\<close>

definition boards_ok :: "state \<Rightarrow> bool" where
  "boards_ok st =
     (\<forall>x board. session_scores st x = Some board \<longrightarrow> map fst board = stage_labels)"

subsection \<open>Sample inputs\<close>

text \<open>
  A model that always answers, a model whose every call raises, both without local
  files, and a chat request of the seller role.
\<close>

definition sample_env :: env where
  "sample_env = \<lparr>generate_content = (\<lambda>calls inp. Inr ''Hello''), products_file = None,
     script_file = (\<lambda>r. None)\<rparr>"

definition failing_env :: env where
  "failing_env = \<lparr>generate_content = (\<lambda>calls inp. Inl ''quota''), products_file = None,
     script_file = (\<lambda>r. None)\<rparr>"

definition sample_chat :: "string \<Rightarrow> string \<Rightarrow> chat_input" where
  "sample_chat sid stg =
     \<lparr>ci_prompt = ''Hi'', ci_role = Seller, ci_session_id = sid, ci_stage = stg\<rparr>"

text \<open>Six product rows, and a state with these rows, a script for both roles and one session.\<close>

definition sample_rows :: "product list" where
  "sample_rows =
     [[(''name'', ''Widget''), (''price'', ''9.99''), (''description'', ''A widget'')],
      [(''name'', ''Gadget'')],
      [(''name'', ''Gizmo''), (''price'', ''5'')],
      [(''description'', ''No name'')],
      [(''name'', ''Fifth'')],
      [(''name'', ''Sixth'')]]"

definition sample_state :: state where
  "sample_state =
     \<lparr>chat_history = [],
      product_data = sample_rows,
      role_scripts = (\<lambda>r. [''Greet the customer'', ''Ask about needs'']),
      session_scores = [''s1'' \<mapsto> zero_scores],
      generation_calls = []\<rparr>"

section \<open>Properties\<close>

subsection \<open>What each step leaves alone\<close>

lemma ensure_products_fields:
  "chat_history (ensure_products e st) = chat_history st"
  "role_scripts (ensure_products e st) = role_scripts st"
  "session_scores (ensure_products e st) = session_scores st"
  "generation_calls (ensure_products e st) = generation_calls st"
  by (simp_all add: ensure_products_def load_local_product_data_def split: option.splits)

lemma update_stage_score_fields:
  "chat_history (update_stage_score stg sid st) = chat_history st"
  "product_data (update_stage_score stg sid st) = product_data st"
  "role_scripts (update_stage_score stg sid st) = role_scripts st"
  "generation_calls (update_stage_score stg sid st) = generation_calls st"
  by (simp_all add: update_stage_score_def split: option.splits)

lemma detect_fields:
  "chat_history (snd (detect_conversation_stage e p r st)) = chat_history st"
  "product_data (snd (detect_conversation_stage e p r st)) = product_data st"
  "role_scripts (snd (detect_conversation_stage e p r st)) = role_scripts st"
  "session_scores (snd (detect_conversation_stage e p r st)) = session_scores st"
  "generation_calls (snd (detect_conversation_stage e p r st))
     = generation_calls st @ [Instruction (stage_prompt p r)]"
  by (simp_all add: detect_conversation_stage_def call_model_def Let_def split: sum.splits)

lemma detect_label: "fst (detect_conversation_stage e p r st) \<in> set stage_labels"
  by (simp add: detect_conversation_stage_def call_model_def Let_def stage_labels_def
      split: sum.splits)

lemma resolve_fields:
  "chat_history (snd (resolve_stage e p stg r st)) = chat_history st"
  "product_data (snd (resolve_stage e p stg r st)) = product_data st"
  "role_scripts (snd (resolve_stage e p stg r st)) = role_scripts st"
  "session_scores (snd (resolve_stage e p stg r st)) = session_scores st"
  by (simp_all add: resolve_stage_def detect_fields)

subsection \<open>The effect of \<open>generate_response\<close>\<close>

lemma generate_response_eq:
  "generate_response e p stg r sid st =
    (let st2 = snd (resolve_stage e p stg r (ensure_products e st));
         s = fst (resolve_stage e p stg r (ensure_products e st));
         st3 = update_stage_score s sid st2;
         fp = full_prompt r s (product_data (ensure_products e st)) (role_scripts st r) p;
         hist = chat_history st @ [Turn ''user'' [fp]];
         st5 = st3\<lparr>chat_history := hist,
                   generation_calls := generation_calls st2 @ [Transcript hist]\<rparr>
     in case generate_content e (generation_calls st2) (Transcript hist) of
          Inr text \<Rightarrow> (text, st5\<lparr>chat_history := hist @ [Turn ''model'' [text]]\<rparr>)
        | Inl err \<Rightarrow> (error_marker err, st5))"
  by (simp add: generate_response_def call_model_def Let_def case_prod_beta
      update_stage_score_fields resolve_fields ensure_products_fields split: sum.splits)

lemma update_stage_score_scores:
  "session_scores (update_stage_score stg sid st) =
     (case session_scores st sid of
        Some board \<Rightarrow> if stg \<in> set (map fst board)
          then (session_scores st)(sid \<mapsto> AList.map_entry stg (\<lambda>n. n + 1) board)
          else session_scores st
      | None \<Rightarrow> session_scores st)"
  by (simp add: update_stage_score_def split: option.splits)

lemma generate_response_scores:
  "session_scores (snd (generate_response e p stg r sid st)) =
     session_scores
       (update_stage_score (fst (resolve_stage e p stg r (ensure_products e st))) sid st)"
  by (simp add: generate_response_eq Let_def update_stage_score_scores resolve_fields
      ensure_products_fields split: sum.splits option.splits)

lemma chat_handler_scores:
  "session_scores (snd (chat_handler e d st)) =
     session_scores (update_stage_score (resolved_stage e d st) (ci_session_id d) st)"
proof (cases "session_scores st (ci_session_id d)")
  case None
  then show ?thesis
    by (simp add: chat_handler_def update_stage_score_def)
next
  case (Some board)
  then show ?thesis
    by (simp add: chat_handler_def resolved_stage_def case_prod_beta generate_response_scores
        split: option.splits)
qed

subsection \<open>The keys of the scoreboards and the sessions of the store\<close>

lemma map_fst_map_entry: "map fst (AList.map_entry k f xs) = map fst xs"
  by (induction xs) auto

lemma startup_scores: "session_scores (startup e) = Map.empty"
  by (simp add: startup_def load_local_scripts_def load_script_def load_local_product_data_def
      split: option.splits)

lemma update_stage_score_keys:
  assumes "session_scores (update_stage_score stg sid st) x = Some board'"
  shows "\<exists>board. session_scores st x = Some board \<and> map fst board' = map fst board"
  using assms
  by (auto simp: update_stage_score_scores map_fst_map_entry split: option.splits if_splits)

lemma update_stage_score_dom:
  "dom (session_scores (update_stage_score stg sid st)) = dom (session_scores st)"
  by (auto simp: update_stage_score_scores split: option.splits if_splits)

lemma handle_keys:
  assumes "session_scores (handle q st) x = Some board'"
  shows "map fst board' = stage_labels \<or>
         (\<exists>board. session_scores st x = Some board \<and> map fst board' = map fst board)"
proof (cases q)
  case (Start sid)
  with assms show ?thesis
    by (auto simp: start_session_def zero_scores_def stage_labels_def split: if_splits)
next
  case (Chat e d)
  with assms show ?thesis
    by (auto simp: chat_handler_scores dest: update_stage_score_keys)
qed (use assms in auto)

lemma handle_boards_ok: "boards_ok st \<Longrightarrow> boards_ok (handle q st)"
  unfolding boards_ok_def using handle_keys by metis

lemma run_boards_ok: "boards_ok st \<Longrightarrow> boards_ok (run qs st)"
  by (induction qs arbitrary: st) (simp_all add: handle_boards_ok)

lemma startup_boards_ok: "boards_ok (startup e0)"
  by (simp add: boards_ok_def startup_scores)

lemma reachable_keys:
  "session_scores (run qs (startup e0)) x = Some board \<Longrightarrow> map fst board = stage_labels"
  using run_boards_ok [OF startup_boards_ok] by (simp add: boards_ok_def)

lemma handle_dom: "dom (session_scores (handle q st)) = dom (session_scores st) \<union> created [q]"
  by (cases q) (auto simp: start_session_def chat_handler_scores update_stage_score_dom)

lemma created_Cons: "created (q # qs) = created [q] \<union> created qs"
  by (cases q) auto

lemma run_dom: "dom (session_scores (run qs st)) = dom (session_scores st) \<union> created qs"
proof (induction qs arbitrary: st)
  case Nil
  then show ?case by simp
next
  case (Cons q qs)
  have "dom (session_scores (run (q # qs) st)) = dom (session_scores (handle q st)) \<union> created qs"
    using Cons.IH by simp
  also have "\<dots> = dom (session_scores st) \<union> (created [q] \<union> created qs)"
    by (simp add: handle_dom Un_assoc)
  finally show ?case
    using created_Cons [of q qs] by simp
qed

lemma reachable_dom: "dom (session_scores (run qs (startup e0))) = created qs"
  by (simp add: run_dom startup_scores)

subsection \<open>Chat requests with an explicit stage\<close>

lemma auto_not_label: "''auto'' \<notin> set stage_labels"
  by (simp add: stage_labels_def)

lemma resolved_explicit: "ci_stage d \<noteq> ''auto'' \<Longrightarrow> resolved_stage e d st = ci_stage d"
  by (simp add: resolved_stage_def resolve_stage_def)

lemma chat_explicit_scores:
  assumes "session_scores st (ci_session_id d) = Some board"
    and "ci_stage d \<in> set (map fst board)" and "ci_stage d \<noteq> ''auto''"
  shows "session_scores (snd (chat_handler e d st)) =
           (session_scores st)(ci_session_id d \<mapsto> AList.map_entry (ci_stage d) (\<lambda>n. n + 1) board)"
  using assms by (simp add: chat_handler_scores resolved_explicit update_stage_score_scores)

lemma map_of_bump:
  "map_of (AList.map_entry k (\<lambda>n. n + 1) board) =
     (map_of board)(k := map_option (\<lambda>n. n + (1::int)) (map_of board k))"
  by (auto simp: AList.map_of_map_entry fun_eq_iff split: option.splits)

lemma chats_explicit:
  assumes "session_scores st sid = Some board"
    and "S \<in> set (map fst board)" and "S \<noteq> ''auto''"
    and "\<forall>c \<in> set calls. ci_session_id (snd c) = sid \<and> ci_stage (snd c) = S"
  shows "\<exists>board'. session_scores (run (map (\<lambda>c. Chat (fst c) (snd c)) calls) st) sid = Some board'
           \<and> map_of board' =
               (map_of board)(S := map_option (\<lambda>n. n + int (length calls)) (map_of board S))"
  using assms
proof (induction calls arbitrary: st board)
  case Nil
  then show ?case by (auto simp: fun_eq_iff option.map_ident)
next
  case (Cons c calls)
  let ?b1 = "AList.map_entry S (\<lambda>n. n + 1) board"
  let ?st1 = "snd (chat_handler (fst c) (snd c) st)"
  have c: "ci_session_id (snd c) = sid" "ci_stage (snd c) = S"
    using Cons.prems(4) by simp_all
  have s1: "session_scores ?st1 sid = Some ?b1"
    using chat_explicit_scores [of st "snd c" board "fst c"] Cons.prems(1-3) c by simp
  have k1: "S \<in> set (map fst ?b1)"
    using Cons.prems(2) by (simp only: map_fst_map_entry)
  have rest: "\<forall>c \<in> set calls. ci_session_id (snd c) = sid \<and> ci_stage (snd c) = S"
    using Cons.prems(4) by simp
  from Cons.IH [OF s1 k1 Cons.prems(3) rest]
  obtain board' where b':
    "session_scores (run (map (\<lambda>c. Chat (fst c) (snd c)) calls) ?st1) sid = Some board'"
    "map_of board' = (map_of ?b1)(S := map_option (\<lambda>n. n + int (length calls)) (map_of ?b1 S))"
    by blast
  have m: "map_of board' =
      (map_of board)(S := map_option (\<lambda>n. n + int (length (c # calls))) (map_of board S))"
    unfolding b'(2) map_of_bump
    by (cases "map_of board S") (auto simp: fun_eq_iff)
  have r: "session_scores (run (map (\<lambda>c. Chat (fst c) (snd c)) (c # calls)) st) sid = Some board'"
    using b'(1) by simp
  show ?case
    by (rule exI [of _ board']) (rule conjI [OF r m])
qed

subsection \<open>The effect of a chat request on a session of the store\<close>

lemma generate_response_chat:
  "generate_response e (ci_prompt d) (ci_stage d) (ci_role d) (ci_session_id d) st =
    (let st2 = snd (resolve_stage e (ci_prompt d) (ci_stage d) (ci_role d) (ensure_products e st));
         st3 = update_stage_score (resolved_stage e d st) (ci_session_id d) st2;
         hist = chat_history st @ [Turn ''user'' [composed_prompt e d st]];
         st5 = st3\<lparr>chat_history := hist,
                   generation_calls := generation_calls st2 @ [Transcript hist]\<rparr>
     in case reply_outcome e d st of
          Inr text \<Rightarrow> (text, st5\<lparr>chat_history := hist @ [Turn ''model'' [text]]\<rparr>)
        | Inl err \<Rightarrow> (error_marker err, st5))"
  by (simp add: generate_response_eq Let_def resolved_stage_def composed_prompt_def
      reply_outcome_def)

lemma chat_handler_response:
  assumes "session_scores st (ci_session_id d) = Some board"
  shows "\<exists>board'. session_scores (snd (chat_handler e d st)) (ci_session_id d) = Some board' \<and>
     fst (chat_handler e d st) =
       Inr \<lparr>cr_session_id = ci_session_id d,
            cr_response = (case reply_outcome e d st of Inr text \<Rightarrow> text
                           | Inl err \<Rightarrow> error_marker err),
            cr_scores = board'\<rparr>"
proof -
  have dom: "ci_session_id d \<in> dom (session_scores
      (update_stage_score (resolved_stage e d st) (ci_session_id d) st))"
    using assms by (simp add: update_stage_score_dom domI)
  then obtain board' where b: "session_scores
      (update_stage_score (resolved_stage e d st) (ci_session_id d) st) (ci_session_id d) = Some board'"
    by blast
  have s: "session_scores (snd (generate_response e (ci_prompt d) (ci_stage d) (ci_role d)
      (ci_session_id d) st)) (ci_session_id d) = Some board'"
    using b by (simp add: generate_response_scores resolved_stage_def)
  have f: "fst (generate_response e (ci_prompt d) (ci_stage d) (ci_role d) (ci_session_id d) st)
      = (case reply_outcome e d st of Inr text \<Rightarrow> text | Inl err \<Rightarrow> error_marker err)"
    by (simp add: generate_response_chat Let_def split: sum.splits)
  show ?thesis
    using assms s f b
    by (simp add: chat_handler_def case_prod_beta chat_handler_scores)
qed

lemma chat_handler_history:
  assumes "session_scores st (ci_session_id d) = Some board"
  shows "chat_history (snd (chat_handler e d st)) =
     chat_history st @ Turn ''user'' [composed_prompt e d st] #
       (case reply_outcome e d st of Inr text \<Rightarrow> [Turn ''model'' [text]] | Inl err \<Rightarrow> [])"
  using assms
  by (simp add: chat_handler_def case_prod_beta generate_response_chat Let_def
      split: sum.splits option.splits)

lemma chat_handler_calls:
  assumes "session_scores st (ci_session_id d) = Some board"
  shows "generation_calls (snd (chat_handler e d st)) =
     generation_calls
       (snd (resolve_stage e (ci_prompt d) (ci_stage d) (ci_role d) (ensure_products e st)))
     @ [Transcript (chat_history st @ [Turn ''user'' [composed_prompt e d st]])]"
  using assms
  by (simp add: chat_handler_def case_prod_beta generate_response_chat Let_def
      split: sum.splits option.splits)

lemma chat_handler_invalid:
  "session_scores st (ci_session_id d) = None \<Longrightarrow> chat_handler e d st = (Inl invalid_session, st)"
  by (simp add: chat_handler_def)

lemma run_snoc: "run (qs @ [q]) st = handle q (run qs st)"
  by (induction qs arbitrary: st) simp_all

lemma labels_seven: "distinct stage_labels \<and> length stage_labels = 7"
  by (simp add: stage_labels_def)

lemma detect_failed:
  "generate_content e (generation_calls st) (Instruction (stage_prompt p r)) = Inl err
     \<Longrightarrow> fst (detect_conversation_stage e p r st) = ''general''"
  by (simp add: detect_conversation_stage_def call_model_def)

lemma detect_unknown:
  "generate_content e (generation_calls st) (Instruction (stage_prompt p r)) = Inr text
     \<Longrightarrow> lower (strip text) \<notin> set stage_labels
     \<Longrightarrow> fst (detect_conversation_stage e p r st) = ''general''"
  by (simp add: detect_conversation_stage_def call_model_def Let_def)

lemma resolved_auto_failed:
  assumes "ci_stage d = ''auto''"
    and "generate_content e (generation_calls st)
           (Instruction (stage_prompt (ci_prompt d) (ci_role d))) = Inl err"
  shows "resolved_stage e d st = ''general''"
  using assms
  by (simp add: resolved_stage_def resolve_stage_def detect_failed ensure_products_fields)

lemma general_label: "''general'' \<in> set stage_labels"
  by (simp add: stage_labels_def)

lemma chat_bump:
  assumes "session_scores st (ci_session_id d) = Some board"
    and "resolved_stage e d st \<in> set (map fst board)"
  shows "\<exists>n cr. map_of board (resolved_stage e d st) = Some n
     \<and> fst (chat_handler e d st) = Inr cr
     \<and> session_scores (snd (chat_handler e d st)) (ci_session_id d) = Some (cr_scores cr)
     \<and> map_of (cr_scores cr) (resolved_stage e d st) = Some (n + 1)
     \<and> (\<forall>T. T \<noteq> resolved_stage e d st \<longrightarrow> map_of (cr_scores cr) T = map_of board T)"
proof -
  let ?s = "resolved_stage e d st"
  let ?b = "AList.map_entry ?s (\<lambda>n. n + 1) board"
  obtain n where n: "map_of board ?s = Some n"
    using assms(2) by (metis image_set map_of_eq_None_iff not_Some_eq)
  have sc: "session_scores (snd (chat_handler e d st)) (ci_session_id d) = Some ?b"
    using assms by (simp add: chat_handler_scores update_stage_score_scores)
  from chat_handler_response [OF assms(1), of e] sc
  obtain cr where cr: "fst (chat_handler e d st) = Inr cr" "cr_scores cr = ?b"
    by auto
  have "map_of ?b ?s = Some (n + 1)"
    using n by (simp add: map_of_bump)
  moreover have "\<forall>T. T \<noteq> ?s \<longrightarrow> map_of ?b T = map_of board T"
    by (simp add: map_of_bump)
  ultimately show ?thesis
    using n cr sc by auto
qed

subsection \<open>The transcript\<close>

lemma handle_history_prefix: "prefix (chat_history st) (chat_history (handle q st))"
proof (cases q)
  case (Chat e d)
  show ?thesis
  proof (cases "session_scores st (ci_session_id d)")
    case None
    then show ?thesis
      using Chat by (simp add: chat_handler_invalid)
  next
    case (Some board)
    then show ?thesis
      using Chat by (simp add: chat_handler_history)
  qed
qed (simp_all add: start_session_def)

lemma run_history_prefix: "prefix (chat_history st) (chat_history (run qs st))"
proof (induction qs arbitrary: st)
  case Nil
  show ?case by simp
next
  case (Cons q qs)
  have "prefix (chat_history st) (chat_history (handle q st))"
    by (rule handle_history_prefix)
  also have "prefix (chat_history (handle q st)) (chat_history (run qs (handle q st)))"
    by (rule Cons.IH)
  finally show ?case by simp
qed

lemma composed_prompt_ends:
  "suffix (''User: '' @ ci_prompt d @ nl @ ''Respond naturally.'') (composed_prompt e d st)"
  unfolding composed_prompt_def full_prompt_def suffix_def
  by (metis append.assoc)

lemma context_prefix:
  "prefix (''You are a '' @ role_str (ci_role d) @ ''. You are in the '' @ resolved_stage e d st
           @ '' stage of the role-play.'') (composed_prompt e d st)"
  by (simp add: composed_prompt_def full_prompt_def context_text_def)

subsection \<open>What the composed prompt contains\<close>

lemma sublist_join: "x \<in> set xs \<Longrightarrow> sublist x (join sep xs)"
proof (induction sep xs rule: join.induct)
  case (3 sep a b bs)
  show ?case
  proof (cases "x = a")
    case True
    then show ?thesis by simp
  next
    case False
    with 3 have "sublist x (join sep (b # bs))" by simp
    then have "sublist x ((a @ sep) @ join sep (b # bs))"
      by (metis sublist_append)
    then show ?thesis by simp
  qed
qed simp_all

lemma join_Nil_iff: "join sep (map product_entry rows) = [] \<longleftrightarrow> rows = []"
proof (cases rows)
  case (Cons r rs)
  then show ?thesis
    by (cases rs) (simp_all add: product_entry_def)
qed simp

lemma sublist_products_text:
  assumes "p \<in> set (take 5 rows)"
  shows "sublist (product_entry p) (products_text rows)"
proof -
  have "sublist (product_entry p) (join (nl @ nl) (map product_entry (take 5 rows)))"
    using assms by (intro sublist_join) simp
  moreover have "join (nl @ nl) (map product_entry (take 5 rows)) \<noteq> []"
    using assms by (auto simp: join_Nil_iff)
  ultimately show ?thesis
    by (simp add: products_text_def Let_def)
qed

lemma sublist_in_prompt:
  "sublist x (context_text r stg) \<Longrightarrow> sublist x (full_prompt r stg rows script p)"
  "sublist x (products_text rows) \<Longrightarrow> sublist x (full_prompt r stg rows script p)"
  "sublist x (script_section script) \<Longrightarrow> sublist x (full_prompt r stg rows script p)"
proof -
  let ?fp = "full_prompt r stg rows script p"
  have 1: "?fp = [] @ context_text r stg @ (nl @ nl @ ''Products:'' @ nl @ products_text rows
     @ script_section script @ nl @ nl @ ''User: '' @ p @ nl @ ''Respond naturally.'')"
    by (simp add: full_prompt_def)
  have 2: "?fp = (context_text r stg @ nl @ nl @ ''Products:'' @ nl) @ products_text rows
     @ (script_section script @ nl @ nl @ ''User: '' @ p @ nl @ ''Respond naturally.'')"
    by (simp add: full_prompt_def)
  have 3: "?fp = (context_text r stg @ nl @ nl @ ''Products:'' @ nl @ products_text rows)
     @ script_section script @ (nl @ nl @ ''User: '' @ p @ nl @ ''Respond naturally.'')"
    by (simp add: full_prompt_def)
  show "sublist x (context_text r stg) \<Longrightarrow> sublist x ?fp"
    by (subst 1) (meson sublist_appendI sublist_order.order_trans)
  show "sublist x (products_text rows) \<Longrightarrow> sublist x ?fp"
    by (subst 2) (meson sublist_appendI sublist_order.order_trans)
  show "sublist x (script_section script) \<Longrightarrow> sublist x ?fp"
    by (subst 3) (meson sublist_appendI sublist_order.order_trans)
qed

lemma context_role: "sublist (''You are a '' @ role_str r @ ''.'') (context_text r stg)"
  unfolding context_text_def sublist_def
  by (rule exI [of _ "[]"], rule exI [of _ "'' You are in the '' @ stg @ '' stage of the role-play.''"])
    simp

lemma context_stage:
  "sublist (''You are in the '' @ stg @ '' stage of the role-play.'') (context_text r stg)"
  unfolding context_text_def sublist_def
  by (rule exI [of _ "''You are a '' @ role_str r @ ''. ''"], rule exI [of _ "[]"]) simp

lemma script_lines:
  assumes "script \<noteq> []"
  shows "sublist (''Script:'' @ nl @ join nl script) (script_section script)"
    and "l \<in> set script \<Longrightarrow> sublist l (script_section script)"
proof -
  have eq: "script_section script = (nl @ nl) @ (''Script:'' @ nl @ join nl script) @ []"
    using assms by (simp add: script_section_def)
  show "sublist (''Script:'' @ nl @ join nl script) (script_section script)"
    by (subst eq) (rule sublist_appendI)
  assume "l \<in> set script"
  then have "sublist l (join nl script)"
    by (rule sublist_join)
  then have "sublist l ((nl @ nl @ ''Script:'' @ nl) @ join nl script)"
    by (metis sublist_append)
  then show "sublist l (script_section script)"
    using assms by (simp add: script_section_def)
qed

lemma prompt_first_five:
  "take 5 rows' = take 5 rows \<Longrightarrow>
     full_prompt r stg rows' script p = full_prompt r stg rows script p"
  by (simp add: full_prompt_def products_text_def)

subsection \<open>The sample inputs evaluated\<close>

lemma startup_sample:
  "startup sample_env = \<lparr>chat_history = [], product_data = [], role_scripts = (\<lambda>r. []),
        session_scores = Map.empty, generation_calls = []\<rparr>"
  by (simp add: startup_def sample_env_def load_local_scripts_def load_script_def
      load_local_product_data_def)

lemma sample_reply: "reply_outcome sample_env d st = Inr ''Hello''"
  by (simp add: reply_outcome_def sample_env_def)

lemma failing_reply: "reply_outcome failing_env d st = Inl ''quota''"
  by (simp add: reply_outcome_def failing_env_def)

lemma hello_not_label: "lower (strip ''Hello'') \<notin> set stage_labels"
  by (simp add: lower_def strip_def isspace_def lower_char_def stage_labels_def)

lemma sample_prompt_text:
  assumes "product_data st = []" and "role_scripts st Seller = []"
  shows "composed_prompt sample_env (sample_chat sid ''closing'') st =
     ''You are a seller. You are in the closing stage of the role-play.\<newline>\<newline>Products:\<newline>No product data.\<newline>\<newline>User: Hi\<newline>Respond naturally.''"
  using assms
  by (simp add: composed_prompt_def resolved_explicit sample_chat_def full_prompt_def
      context_text_def products_text_def script_section_def nl_def ensure_products_def
      load_local_product_data_def sample_env_def)

section \<open>The claims\<close>

text \<open>
  C1. For every identifier that session creation returns, asking for the scores of that
  identifier right afterwards succeeds, and the scoreboard returned has exactly the seven
  stage labels (opening, discovery, presentation, objection_handling, closing, follow_up,
  general), each mapped to zero. This holds in every state, also when the identifier drawn
  is one already in the store.
\<close>

theorem start_then_scores:
  "get_scores (fst (start_session sid st)) (snd (start_session sid st)) =
     Inr \<lparr>sr_session_id = sid, sr_scores = map (\<lambda>l. (l, 0)) stage_labels\<rparr>"
  by (simp add: get_scores_def start_session_def zero_scores_def stage_labels_def)

text \<open>
  C2. In a running service, for every existing session and every one of the seven stage
  labels \<open>S\<close>: after \<open>N\<close> chat requests for that session that all name the stage \<open>S\<close>
  explicitly (so not \<^verbatim>\<open>"auto"\<close>), whatever their prompts and roles and whatever the
  model answers, the session's counter for \<open>S\<close> is its value before plus \<open>N\<close>, and every
  other counter of that session is what it was.
\<close>

theorem explicit_stage_counts:
  assumes "session_scores (run qs (startup e0)) sid = Some board"
    and "S \<in> set stage_labels"
    and "\<forall>c \<in> set calls. ci_session_id (snd c) = sid \<and> ci_stage (snd c) = S"
  shows "\<exists>n board'. map_of board S = Some n
      \<and> session_scores (run (map (\<lambda>c. Chat (fst c) (snd c)) calls) (run qs (startup e0))) sid
          = Some board'
      \<and> map_of board' S = Some (n + int (length calls))
      \<and> (\<forall>T. T \<noteq> S \<longrightarrow> map_of board' T = map_of board T)"
proof -
  have keys: "map fst board = stage_labels"
    using assms(1) by (rule reachable_keys)
  then have k: "S \<in> set (map fst board)"
    using assms(2) by simp
  then obtain n where n: "map_of board S = Some n"
    by (metis image_set map_of_eq_None_iff not_Some_eq)
  have na: "S \<noteq> ''auto''"
    using assms(2) auto_not_label by blast
  from chats_explicit [OF assms(1) k na assms(3)]
  obtain board' where b':
    "session_scores (run (map (\<lambda>c. Chat (fst c) (snd c)) calls) (run qs (startup e0))) sid
       = Some board'"
    "map_of board' = (map_of board)(S := map_option (\<lambda>n. n + int (length calls)) (map_of board S))"
    by blast
  have "map_of board' S = Some (n + int (length calls))"
    using b'(2) n by simp
  moreover have "\<forall>T. T \<noteq> S \<longrightarrow> map_of board' T = map_of board T"
    using b'(2) by simp
  ultimately show ?thesis
    using n b'(1) by blast
qed

theorem explicit_stage_counts_witness:
  "\<exists>board'. session_scores
       (run [Chat sample_env (sample_chat ''s1'' ''opening''),
             Chat failing_env (sample_chat ''s1'' ''opening'')]
          (run [Start ''s1''] (startup sample_env))) ''s1'' = Some board'
     \<and> map_of board' ''opening'' = Some 2 \<and> map_of board' ''closing'' = Some 0"
proof -
  have h1: "session_scores (run [Start ''s1''] (startup sample_env)) ''s1'' = Some zero_scores"
    by (simp add: startup_sample start_session_def)
  have h2: "''opening'' \<in> set stage_labels"
    by (simp add: stage_labels_def)
  have h3: "\<forall>c \<in> set [(sample_env, sample_chat ''s1'' ''opening''),
                        (failing_env, sample_chat ''s1'' ''opening'')].
              ci_session_id (snd c) = ''s1'' \<and> ci_stage (snd c) = ''opening''"
    by (simp add: sample_chat_def)
  from explicit_stage_counts [OF h1 h2 h3]
  show ?thesis
    by (auto simp: zero_scores_def)
qed

text \<open>
  C3. In a running service, for every identifier that no session creation has returned:
  asking for its scores fails with the client error 400 "Invalid session ID", and a chat
  request with it fails with the same error and leaves the whole state as it was, so
  that no call to the model is made, nothing is appended to the transcript and no counter
  changes.
\<close>

theorem unknown_session_rejected:
  assumes "sid \<notin> created qs" and "ci_session_id d = sid"
  shows "get_scores sid (run qs (startup e0)) = Inl (HTTPException 400 ''Invalid session ID'')
       \<and> chat_handler e d (run qs (startup e0))
           = (Inl (HTTPException 400 ''Invalid session ID''), run qs (startup e0))"
proof -
  have "sid \<notin> dom (session_scores (run qs (startup e0)))"
    using assms(1) by (simp add: reachable_dom)
  then have n: "session_scores (run qs (startup e0)) sid = None"
    by blast
  then show ?thesis
    using assms(2) by (simp add: get_scores_def chat_handler_invalid invalid_session_def)
qed

theorem unknown_session_rejected_witness:
  "get_scores ''s2'' (run [Start ''s1''] (startup sample_env))
       = Inl (HTTPException 400 ''Invalid session ID'')
   \<and> chat_handler sample_env (sample_chat ''s2'' ''opening'') (run [Start ''s1''] (startup sample_env))
       = (Inl (HTTPException 400 ''Invalid session ID''), run [Start ''s1''] (startup sample_env))"
proof -
  have h1: "''s2'' \<notin> created [Start ''s1'']"
    by simp
  have h2: "ci_session_id (sample_chat ''s2'' ''opening'') = ''s2''"
    by (simp add: sample_chat_def)
  show ?thesis
    using unknown_session_rejected [OF h1 h2] .
qed

text \<open>
  C4. For every prompt and role: when the call that asks the model for the stage fails,
  or when its answer, trimmed and lowercased, is none of the seven labels, the detected
  stage is "general". So a chat request with stage "auto" on an existing session always
  returns a response, never an error; and when the stage call fails, it is the "general"
  counter of the session that goes up by one, every other counter staying as it was.
\<close>

theorem classifier_falls_back:
  "(generate_content e (generation_calls st) (Instruction (stage_prompt p r)) = Inl err
      \<longrightarrow> fst (detect_conversation_stage e p r st) = ''general'')
   \<and> (generate_content e (generation_calls st) (Instruction (stage_prompt p r)) = Inr text
        \<and> lower (strip text) \<notin> set stage_labels
      \<longrightarrow> fst (detect_conversation_stage e p r st) = ''general'')
   \<and> (session_scores (run qs (startup e0)) (ci_session_id d) = Some board \<and> ci_stage d = ''auto''
      \<longrightarrow> (\<exists>cr. fst (chat_handler e d (run qs (startup e0))) = Inr cr)
        \<and> (generate_content e (generation_calls (run qs (startup e0)))
              (Instruction (stage_prompt (ci_prompt d) (ci_role d))) = Inl err
           \<longrightarrow> (\<exists>n cr. map_of board ''general'' = Some n
                 \<and> fst (chat_handler e d (run qs (startup e0))) = Inr cr
                 \<and> session_scores (snd (chat_handler e d (run qs (startup e0)))) (ci_session_id d)
                     = Some (cr_scores cr)
                 \<and> map_of (cr_scores cr) ''general'' = Some (n + 1)
                 \<and> (\<forall>T. T \<noteq> ''general'' \<longrightarrow> map_of (cr_scores cr) T = map_of board T))))"
proof (intro conjI impI; (elim conjE)?)
  assume "generate_content e (generation_calls st) (Instruction (stage_prompt p r)) = Inl err"
  then show "fst (detect_conversation_stage e p r st) = ''general''"
    by (rule detect_failed)
next
  assume "generate_content e (generation_calls st) (Instruction (stage_prompt p r)) = Inr text"
    and "lower (strip text) \<notin> set stage_labels"
  then show "fst (detect_conversation_stage e p r st) = ''general''"
    by (rule detect_unknown)
next
  assume "session_scores (run qs (startup e0)) (ci_session_id d) = Some board"
  from chat_handler_response [OF this, of e]
  show "\<exists>cr. fst (chat_handler e d (run qs (startup e0))) = Inr cr"
    by blast
next
  let ?st = "run qs (startup e0)"
  assume v: "session_scores ?st (ci_session_id d) = Some board"
    and a: "ci_stage d = ''auto''"
    and f: "generate_content e (generation_calls ?st)
              (Instruction (stage_prompt (ci_prompt d) (ci_role d))) = Inl err"
  have g: "resolved_stage e d ?st = ''general''"
    using a f by (rule resolved_auto_failed)
  have "map fst board = stage_labels"
    using v by (rule reachable_keys)
  then have "resolved_stage e d ?st \<in> set (map fst board)"
    using g general_label by simp
  from chat_bump [OF v this]
  show "\<exists>n cr. map_of board ''general'' = Some n
      \<and> fst (chat_handler e d ?st) = Inr cr
      \<and> session_scores (snd (chat_handler e d ?st)) (ci_session_id d) = Some (cr_scores cr)
      \<and> map_of (cr_scores cr) ''general'' = Some (n + 1)
      \<and> (\<forall>T. T \<noteq> ''general'' \<longrightarrow> map_of (cr_scores cr) T = map_of board T)"
    unfolding g .
qed

theorem classifier_falls_back_witness:
  "fst (detect_conversation_stage failing_env ''Hi'' Seller (startup sample_env)) = ''general''
   \<and> fst (detect_conversation_stage sample_env ''Hi'' Seller (startup sample_env)) = ''general''
   \<and> (\<exists>cr. fst (chat_handler failing_env (sample_chat ''s1'' ''auto'')
               (run [Start ''s1''] (startup sample_env))) = Inr cr
        \<and> map_of (cr_scores cr) ''general'' = Some 1
        \<and> map_of (cr_scores cr) ''opening'' = Some 0)"
proof -
  let ?st = "run [Start ''s1''] (startup sample_env)"
  let ?d = "sample_chat ''s1'' ''auto''"
  have f: "\<And>cs i. generate_content failing_env cs i = Inl ''quota''"
    by (simp add: failing_env_def)
  have g: "\<And>cs i. generate_content sample_env cs i = Inr ''Hello''"
    by (simp add: sample_env_def)
  have v: "session_scores ?st (ci_session_id ?d) = Some zero_scores \<and> ci_stage ?d = ''auto''"
    by (simp add: startup_sample start_session_def sample_chat_def)
  have 1: "fst (detect_conversation_stage failing_env ''Hi'' Seller (startup sample_env)) = ''general''"
    using classifier_falls_back [of failing_env "startup sample_env" "''Hi''" Seller "''quota''"] f
    by blast
  have 2: "fst (detect_conversation_stage sample_env ''Hi'' Seller (startup sample_env)) = ''general''"
    using classifier_falls_back [of sample_env "startup sample_env" "''Hi''" Seller _ "''Hello''"]
      g hello_not_label
    by blast
  have "\<exists>n cr. map_of zero_scores ''general'' = Some n
      \<and> fst (chat_handler failing_env ?d ?st) = Inr cr
      \<and> session_scores (snd (chat_handler failing_env ?d ?st)) (ci_session_id ?d)
           = Some (cr_scores cr)
      \<and> map_of (cr_scores cr) ''general'' = Some (n + 1)
      \<and> (\<forall>T. T \<noteq> ''general'' \<longrightarrow> map_of (cr_scores cr) T = map_of zero_scores T)"
    using classifier_falls_back [of failing_env _ _ _ "''quota''" _ "[Start ''s1'']" sample_env
        ?d zero_scores] f v
    by blast
  then have 3: "\<exists>cr. fst (chat_handler failing_env ?d ?st) = Inr cr
        \<and> map_of (cr_scores cr) ''general'' = Some 1
        \<and> map_of (cr_scores cr) ''opening'' = Some 0"
    by (auto simp: zero_scores_def)
  from 1 2 3 show ?thesis by blast
qed

text \<open>
  C5. In every state that the service reaches from its start, by whatever requests, the
  keys of every scoreboard of the store are exactly the seven stage labels, and so are
  the keys of the scoreboard in every response of the scores and chat endpoints: no key
  is ever added or removed.
\<close>

theorem scoreboard_keys_fixed:
  "distinct stage_labels \<and> length stage_labels = 7
   \<and> (session_scores (run qs (startup e0)) sid = Some board \<longrightarrow> map fst board = stage_labels)
   \<and> (get_scores sid (run qs (startup e0)) = Inr sr \<longrightarrow> map fst (sr_scores sr) = stage_labels)
   \<and> (fst (chat_handler e d (run qs (startup e0))) = Inr cr
        \<longrightarrow> map fst (cr_scores cr) = stage_labels)"
proof (intro conjI impI)
  show "distinct stage_labels" "length stage_labels = 7"
    using labels_seven by simp_all
next
  assume "session_scores (run qs (startup e0)) sid = Some board"
  then show "map fst board = stage_labels"
    by (rule reachable_keys)
next
  assume "get_scores sid (run qs (startup e0)) = Inr sr"
  then have "session_scores (run qs (startup e0)) sid = Some (sr_scores sr)"
    by (auto simp: get_scores_def split: option.splits)
  then show "map fst (sr_scores sr) = stage_labels"
    by (rule reachable_keys)
next
  let ?st = "run qs (startup e0)"
  assume a: "fst (chat_handler e d ?st) = Inr cr"
  then obtain board where v: "session_scores ?st (ci_session_id d) = Some board"
    by (cases "session_scores ?st (ci_session_id d)") (simp_all add: chat_handler_def)
  from chat_handler_response [OF v, of e] a
  have "session_scores (snd (chat_handler e d ?st)) (ci_session_id d) = Some (cr_scores cr)"
    by auto
  then have "session_scores (run (qs @ [Chat e d]) (startup e0)) (ci_session_id d)
      = Some (cr_scores cr)"
    by (simp add: run_snoc)
  then show "map fst (cr_scores cr) = stage_labels"
    by (rule reachable_keys)
qed

theorem scoreboard_keys_fixed_witness:
  "session_scores (run [Start ''s1'', Chat sample_env (sample_chat ''s1'' ''closing'')]
       (startup sample_env)) ''s1''
     = Some [(''opening'', 0), (''discovery'', 0), (''presentation'', 0),
             (''objection_handling'', 0), (''closing'', 1), (''follow_up'', 0), (''general'', 0)]
   \<and> map fst [(''opening'', 0::int), (''discovery'', 0), (''presentation'', 0),
             (''objection_handling'', 0), (''closing'', 1), (''follow_up'', 0), (''general'', 0)]
     = stage_labels
   \<and> (\<exists>sr. get_scores ''s1'' (run [Start ''s1''] (startup sample_env)) = Inr sr
         \<and> map fst (sr_scores sr) = stage_labels)
   \<and> (\<exists>cr. fst (chat_handler sample_env (sample_chat ''s1'' ''closing'')
                (run [Start ''s1''] (startup sample_env))) = Inr cr
         \<and> map fst (cr_scores cr) = stage_labels)"
proof -
  let ?d = "sample_chat ''s1'' ''closing''"
  let ?st = "run [Start ''s1''] (startup sample_env)"
  let ?B = "[(''opening'', 0::int), (''discovery'', 0), (''presentation'', 0),
             (''objection_handling'', 0), (''closing'', 1), (''follow_up'', 0), (''general'', 0)]"
  have v: "session_scores ?st (ci_session_id ?d) = Some zero_scores"
    by (simp add: startup_sample start_session_def sample_chat_def)
  have h1: "session_scores (run [Start ''s1'', Chat sample_env ?d] (startup sample_env)) ''s1''
      = Some ?B"
    by (simp add: startup_sample start_session_def chat_handler_scores resolved_explicit
        update_stage_score_scores zero_scores_def sample_chat_def)
  have k1: "map fst ?B = stage_labels"
    using scoreboard_keys_fixed [of "[Start ''s1'', Chat sample_env ?d]" sample_env "''s1''" ?B] h1
    by blast
  obtain sr where h2: "get_scores ''s1'' ?st = Inr sr"
    by (simp add: get_scores_def startup_sample start_session_def)
  have k2: "map fst (sr_scores sr) = stage_labels"
    using scoreboard_keys_fixed [of "[Start ''s1'']" sample_env "''s1''" _ sr] h2
    by blast
  obtain cr where h3: "fst (chat_handler sample_env ?d ?st) = Inr cr"
    using chat_handler_response [OF v, of sample_env] by blast
  have k3: "map fst (cr_scores cr) = stage_labels"
    using scoreboard_keys_fixed [of "[Start ''s1'']" sample_env _ _ _ sample_env ?d cr] h3
    by blast
  from h1 k1 h2 k2 h3 k3 show ?thesis by blast
qed

text \<open>
  C6. For every chat request on an existing session: when the call that asks the model
  for the reply fails, the request still returns a response and not an error, and the
  \<open>response\<close> field is the error marker followed by the reason of the failure.
\<close>

theorem generation_failure_in_body:
  assumes "session_scores st (ci_session_id d) = Some board"
    and "reply_outcome e d st = Inl reason"
  shows "\<exists>cr. fst (chat_handler e d st) = Inr cr
     \<and> cr_session_id cr = ci_session_id d
     \<and> cr_response cr = cross_mark @ '' Response error: '' @ reason"
  using chat_handler_response [OF assms(1), of e] assms(2)
  by (auto simp: error_marker_def)

theorem generation_failure_in_body_witness:
  "\<exists>cr. fst (chat_handler failing_env (sample_chat ''s1'' ''opening'')
             (run [Start ''s1''] (startup sample_env))) = Inr cr
     \<and> cr_session_id cr = ''s1''
     \<and> cr_response cr = cross_mark @ '' Response error: quota''"
proof -
  have h1: "session_scores (run [Start ''s1''] (startup sample_env))
      (ci_session_id (sample_chat ''s1'' ''opening'')) = Some zero_scores"
    by (simp add: startup_sample start_session_def sample_chat_def)
  have h2: "reply_outcome failing_env (sample_chat ''s1'' ''opening'')
      (run [Start ''s1''] (startup sample_env)) = Inl ''quota''"
    by (rule failing_reply)
  from generation_failure_in_body [OF h1 h2]
  show ?thesis
    by (simp add: sample_chat_def)
qed

text \<open>
  C7. There is one transcript for the whole process. Every chat request on an existing
  session, whichever session it is, appends to it a user turn holding the composed
  block and then the literal prompt, and, when the model replies, a model turn holding
  the reply, which is also the response. The call that asks for the reply is given the
  whole transcript: every turn that was there before, from whatever session and in
  insertion order, followed by the new user turn. The turns stay in the transcript
  through all later requests.
\<close>

theorem shared_transcript:
  assumes "session_scores st (ci_session_id d) = Some board"
  shows "last (generation_calls (snd (chat_handler e d st)))
           = Transcript (chat_history st @ [Turn ''user'' [composed_prompt e d st]])
     \<and> suffix (''User: '' @ ci_prompt d @ nl @ ''Respond naturally.'') (composed_prompt e d st)
     \<and> chat_history (snd (chat_handler e d st))
           = chat_history st @ Turn ''user'' [composed_prompt e d st] #
               (case reply_outcome e d st of
                  Inr text \<Rightarrow> [Turn ''model'' [text]]
                | Inl err \<Rightarrow> [])
     \<and> (\<exists>cr. fst (chat_handler e d st) = Inr cr
           \<and> (case reply_outcome e d st of
                  Inr text \<Rightarrow> cr_response cr = text
                | Inl err \<Rightarrow> cr_response cr = error_marker err))
     \<and> prefix (chat_history (snd (chat_handler e d st)))
          (chat_history (run qs (snd (chat_handler e d st))))"
proof (intro conjI)
  show "last (generation_calls (snd (chat_handler e d st)))
           = Transcript (chat_history st @ [Turn ''user'' [composed_prompt e d st]])"
    by (simp add: chat_handler_calls [OF assms])
  show "suffix (''User: '' @ ci_prompt d @ nl @ ''Respond naturally.'') (composed_prompt e d st)"
    by (rule composed_prompt_ends)
  show "chat_history (snd (chat_handler e d st))
           = chat_history st @ Turn ''user'' [composed_prompt e d st] #
               (case reply_outcome e d st of
                  Inr text \<Rightarrow> [Turn ''model'' [text]]
                | Inl err \<Rightarrow> [])"
    by (rule chat_handler_history [OF assms])
  show "\<exists>cr. fst (chat_handler e d st) = Inr cr
           \<and> (case reply_outcome e d st of
                  Inr text \<Rightarrow> cr_response cr = text
                | Inl err \<Rightarrow> cr_response cr = error_marker err)"
    using chat_handler_response [OF assms, of e] by (auto split: sum.splits)
  show "prefix (chat_history (snd (chat_handler e d st)))
          (chat_history (run qs (snd (chat_handler e d st))))"
    by (rule run_history_prefix)
qed

theorem shared_transcript_witness:
  "last (generation_calls (snd (chat_handler sample_env (sample_chat ''s2'' ''closing'')
       (run [Start ''s1'', Start ''s2'', Chat sample_env (sample_chat ''s1'' ''opening'')]
          (startup sample_env)))))
     = Transcript
        [Turn ''user'' [composed_prompt sample_env (sample_chat ''s1'' ''opening'')
                         (run [Start ''s1'', Start ''s2''] (startup sample_env))],
         Turn ''model'' [''Hello''],
         Turn ''user'' [''You are a seller. You are in the closing stage of the role-play.\<newline>\<newline>Products:\<newline>No product data.\<newline>\<newline>User: Hi\<newline>Respond naturally.'']]"
proof -
  let ?before = "run [Start ''s1'', Start ''s2''] (startup sample_env)"
  let ?first = "sample_chat ''s1'' ''opening''"
  let ?st = "run [Start ''s1'', Start ''s2'', Chat sample_env ?first] (startup sample_env)"
  let ?d = "sample_chat ''s2'' ''closing''"
  have v0: "session_scores ?before (ci_session_id ?first) = Some zero_scores"
    by (simp add: startup_sample start_session_def sample_chat_def)
  have st: "?st = snd (chat_handler sample_env ?first ?before)"
    by simp
  have hist: "chat_history ?st = [Turn ''user'' [composed_prompt sample_env ?first ?before],
      Turn ''model'' [''Hello'']]"
    unfolding st chat_handler_history [OF v0] sample_reply
    by (simp add: startup_sample start_session_def)
  have v: "session_scores ?st (ci_session_id ?d) = Some zero_scores"
    unfolding st chat_handler_scores
    by (simp add: update_stage_score_scores startup_sample start_session_def sample_chat_def
        resolved_explicit zero_scores_def)
  have pd: "product_data ?st = []" "role_scripts ?st Seller = []"
    unfolding st
    by (simp_all add: chat_handler_def case_prod_beta generate_response_chat Let_def
        update_stage_score_fields resolve_fields ensure_products_def load_local_product_data_def
        sample_env_def startup_def load_local_scripts_def load_script_def start_session_def
        split: sum.splits option.splits)
  from shared_transcript [OF v, of sample_env]
  have "last (generation_calls (snd (chat_handler sample_env ?d ?st)))
           = Transcript (chat_history ?st @ [Turn ''user'' [composed_prompt sample_env ?d ?st]])"
    by blast
  then show ?thesis
    unfolding hist sample_prompt_text [OF pd] by simp
qed

text \<open>
  C8. For every chat request on an existing session, the text sent to the model in the
  new user turn contains the role, the resolved stage, an entry with name, price and
  description (or their defaults) for each of the first five catalog rows, and, when the
  role's script is not empty, the script header with every line of the script. Rows
  after the fifth play no part: any catalog with the same first five rows gives the same
  text.
\<close>

theorem composed_block_contents:
  assumes "session_scores st (ci_session_id d) = Some board"
  shows "last (generation_calls (snd (chat_handler e d st)))
           = Transcript (chat_history st @ [Turn ''user'' [composed_prompt e d st]])
     \<and> sublist (''You are a '' @ role_str (ci_role d) @ ''.'') (composed_prompt e d st)
     \<and> sublist (''You are in the '' @ resolved_stage e d st @ '' stage of the role-play.'')
          (composed_prompt e d st)
     \<and> (\<forall>p \<in> set (take 5 (product_data (ensure_products e st))).
           sublist (''- '' @ get_field p ''name'' ''Unknown'' @ '' ($''
                      @ get_field p ''price'' ''N/A'' @ '')'' @ nl @ ''  ''
                      @ get_field p ''description'' [])
             (composed_prompt e d st))
     \<and> (\<forall>rows'. take 5 rows' = take 5 (product_data (ensure_products e st)) \<longrightarrow>
           full_prompt (ci_role d) (resolved_stage e d st) rows' (role_scripts st (ci_role d))
             (ci_prompt d) = composed_prompt e d st)
     \<and> (role_scripts st (ci_role d) \<noteq> [] \<longrightarrow>
           sublist (''Script:'' @ nl @ join nl (role_scripts st (ci_role d)))
             (composed_prompt e d st)
           \<and> (\<forall>l \<in> set (role_scripts st (ci_role d)). sublist l (composed_prompt e d st)))"
proof (intro conjI ballI allI impI)
  show "last (generation_calls (snd (chat_handler e d st)))
           = Transcript (chat_history st @ [Turn ''user'' [composed_prompt e d st]])"
    by (simp add: chat_handler_calls [OF assms])
  show "sublist (''You are a '' @ role_str (ci_role d) @ ''.'') (composed_prompt e d st)"
    unfolding composed_prompt_def by (rule sublist_in_prompt(1)) (rule context_role)
  show "sublist (''You are in the '' @ resolved_stage e d st @ '' stage of the role-play.'')
          (composed_prompt e d st)"
    unfolding composed_prompt_def by (rule sublist_in_prompt(1)) (rule context_stage)
next
  fix p assume "p \<in> set (take 5 (product_data (ensure_products e st)))"
  then have "sublist (product_entry p) (composed_prompt e d st)"
    unfolding composed_prompt_def by (intro sublist_in_prompt(2) sublist_products_text)
  then show "sublist (''- '' @ get_field p ''name'' ''Unknown'' @ '' ($''
                      @ get_field p ''price'' ''N/A'' @ '')'' @ nl @ ''  ''
                      @ get_field p ''description'' [])
             (composed_prompt e d st)"
    by (simp add: product_entry_def)
next
  fix rows' assume "take 5 rows' = take 5 (product_data (ensure_products e st))"
  then show "full_prompt (ci_role d) (resolved_stage e d st) rows' (role_scripts st (ci_role d))
             (ci_prompt d) = composed_prompt e d st"
    unfolding composed_prompt_def by (rule prompt_first_five)
next
  assume ne: "role_scripts st (ci_role d) \<noteq> []"
  show "sublist (''Script:'' @ nl @ join nl (role_scripts st (ci_role d)))
             (composed_prompt e d st)"
    unfolding composed_prompt_def by (rule sublist_in_prompt(3)) (rule script_lines(1) [OF ne])
  fix l assume "l \<in> set (role_scripts st (ci_role d))"
  then show "sublist l (composed_prompt e d st)"
    unfolding composed_prompt_def by (intro sublist_in_prompt(3) script_lines(2) [OF ne])
qed

theorem composed_block_contents_witness:
  "sublist ''You are a seller.''
     (composed_prompt sample_env (sample_chat ''s1'' ''closing'') sample_state)
   \<and> sublist ''You are in the closing stage of the role-play.''
     (composed_prompt sample_env (sample_chat ''s1'' ''closing'') sample_state)
   \<and> sublist ''- Widget ($9.99)\<newline>  A widget''
     (composed_prompt sample_env (sample_chat ''s1'' ''closing'') sample_state)
   \<and> sublist ''- Unknown ($N/A)\<newline>  No name''
     (composed_prompt sample_env (sample_chat ''s1'' ''closing'') sample_state)
   \<and> full_prompt Seller ''closing'' (butlast sample_rows)
       [''Greet the customer'', ''Ask about needs''] ''Hi''
     = composed_prompt sample_env (sample_chat ''s1'' ''closing'') sample_state
   \<and> sublist ''Script:\<newline>Greet the customer\<newline>Ask about needs''
     (composed_prompt sample_env (sample_chat ''s1'' ''closing'') sample_state)
   \<and> sublist ''Ask about needs''
     (composed_prompt sample_env (sample_chat ''s1'' ''closing'') sample_state)"
proof -
  let ?d = "sample_chat ''s1'' ''closing''"
  let ?fp = "composed_prompt sample_env ?d sample_state"
  have v: "session_scores sample_state (ci_session_id ?d) = Some zero_scores"
    by (simp add: sample_state_def sample_chat_def)
  have rows: "take 5 (product_data (ensure_products sample_env sample_state)) =
      [[(''name'', ''Widget''), (''price'', ''9.99''), (''description'', ''A widget'')],
       [(''name'', ''Gadget'')],
       [(''name'', ''Gizmo''), (''price'', ''5'')],
       [(''description'', ''No name'')],
       [(''name'', ''Fifth'')]]"
    by (simp add: ensure_products_def sample_state_def sample_rows_def)
  have five: "take 5 (butlast sample_rows) =
      [[(''name'', ''Widget''), (''price'', ''9.99''), (''description'', ''A widget'')],
       [(''name'', ''Gadget'')],
       [(''name'', ''Gizmo''), (''price'', ''5'')],
       [(''description'', ''No name'')],
       [(''name'', ''Fifth'')]]"
    by (simp add: sample_rows_def)
  have script: "\<And>r. role_scripts sample_state r = [''Greet the customer'', ''Ask about needs'']"
    by (simp add: sample_state_def)
  have stg: "resolved_stage sample_env ?d sample_state = ''closing''"
    by (simp add: resolved_explicit sample_chat_def)
  have role: "ci_role ?d = Seller" "ci_prompt ?d = ''Hi''"
    by (simp_all add: sample_chat_def)
  note c = composed_block_contents [OF v, of sample_env, unfolded rows script stg role]
  have 1: "sublist ''You are a seller.'' ?fp"
    using c by simp
  have 2: "sublist ''You are in the closing stage of the role-play.'' ?fp"
    using c by simp
  have 3: "sublist ''- Widget ($9.99)\<newline>  A widget'' ?fp"
    using c by (simp add: get_field_def nl_def)
  have 4: "sublist ''- Unknown ($N/A)\<newline>  No name'' ?fp"
    using c by (simp add: get_field_def nl_def)
  have 5: "full_prompt Seller ''closing'' (butlast sample_rows)
       [''Greet the customer'', ''Ask about needs''] ''Hi'' = ?fp"
    using c [THEN conjunct2, THEN conjunct2, THEN conjunct2, THEN conjunct2, THEN conjunct1,
        rule_format, OF five] .
  have 6: "sublist ''Script:\<newline>Greet the customer\<newline>Ask about needs'' ?fp"
    using c by (simp add: nl_def)
  have 7: "sublist ''Ask about needs'' ?fp"
    using c by simp
  from 1 2 3 4 5 6 7 show ?thesis by blast
qed

text \<open>
  C9. In a running service, a chat request on an existing session whose stage is neither
  "auto" nor one of the seven labels still returns a response: the scoreboard in it is
  the one the session had, the store of scores is unchanged as a whole (no counter of
  any session moves, no key is added), and the composed prompt sent to the model begins
  with the context sentence that carries the stage string as it was given.
\<close>

theorem invalid_explicit_stage:
  assumes "session_scores (run qs (startup e0)) (ci_session_id d) = Some board"
    and "ci_stage d \<noteq> ''auto''"
    and "ci_stage d \<notin> set stage_labels"
  shows "fst (chat_handler e d (run qs (startup e0)))
           = Inr \<lparr>cr_session_id = ci_session_id d,
                  cr_response = (case reply_outcome e d (run qs (startup e0)) of
                                   Inr text \<Rightarrow> text | Inl err \<Rightarrow> error_marker err),
                  cr_scores = board\<rparr>
     \<and> session_scores (snd (chat_handler e d (run qs (startup e0))))
           = session_scores (run qs (startup e0))
     \<and> last (generation_calls (snd (chat_handler e d (run qs (startup e0)))))
           = Transcript (chat_history (run qs (startup e0))
               @ [Turn ''user'' [composed_prompt e d (run qs (startup e0))]])
     \<and> prefix (''You are a '' @ role_str (ci_role d) @ ''. You are in the '' @ ci_stage d
                @ '' stage of the role-play.'') (composed_prompt e d (run qs (startup e0)))"
proof -
  let ?st = "run qs (startup e0)"
  have r: "resolved_stage e d ?st = ci_stage d"
    using assms(2) by (rule resolved_explicit)
  have "map fst board = stage_labels"
    using assms(1) by (rule reachable_keys)
  then have nk: "ci_stage d \<notin> set (map fst board)"
    using assms(3) by simp
  have sc: "session_scores (snd (chat_handler e d ?st)) = session_scores ?st"
    using assms(1) nk by (simp add: chat_handler_scores r update_stage_score_scores)
  from chat_handler_response [OF assms(1), of e]
  have resp: "fst (chat_handler e d ?st)
           = Inr \<lparr>cr_session_id = ci_session_id d,
                  cr_response = (case reply_outcome e d ?st of
                                   Inr text \<Rightarrow> text | Inl err \<Rightarrow> error_marker err),
                  cr_scores = board\<rparr>"
    using sc assms(1) by auto
  have call: "last (generation_calls (snd (chat_handler e d ?st)))
           = Transcript (chat_history ?st @ [Turn ''user'' [composed_prompt e d ?st]])"
    by (simp add: chat_handler_calls [OF assms(1)])
  have pre: "prefix (''You are a '' @ role_str (ci_role d) @ ''. You are in the '' @ ci_stage d
                @ '' stage of the role-play.'') (composed_prompt e d ?st)"
    using context_prefix [of d e ?st] by (simp only: r)
  from resp sc call pre show ?thesis by blast
qed

theorem invalid_explicit_stage_witness:
  "fst (chat_handler sample_env (sample_chat ''s1'' ''haggling'')
          (run [Start ''s1''] (startup sample_env)))
     = Inr \<lparr>cr_session_id = ''s1'', cr_response = ''Hello'', cr_scores = zero_scores\<rparr>
   \<and> session_scores (snd (chat_handler sample_env (sample_chat ''s1'' ''haggling'')
          (run [Start ''s1''] (startup sample_env))))
     = session_scores (run [Start ''s1''] (startup sample_env))
   \<and> prefix ''You are a seller. You are in the haggling stage of the role-play.''
       (composed_prompt sample_env (sample_chat ''s1'' ''haggling'')
          (run [Start ''s1''] (startup sample_env)))"
proof -
  let ?d = "sample_chat ''s1'' ''haggling''"
  have h1: "session_scores (run [Start ''s1''] (startup sample_env)) (ci_session_id ?d)
      = Some zero_scores"
    by (simp add: startup_sample start_session_def sample_chat_def)
  have h2: "ci_stage ?d \<noteq> ''auto''"
    by (simp add: sample_chat_def)
  have h3: "ci_stage ?d \<notin> set stage_labels"
    by (simp add: sample_chat_def stage_labels_def)
  from invalid_explicit_stage [OF h1 h2 h3, of sample_env]
  show ?thesis
    by (simp add: sample_reply) (simp add: sample_chat_def)
qed

text \<open>
  C10. In a running service, when the call that asks the model for the reply fails
  during a chat request on an existing session, what was done before the call stays:
  the transcript is the old one followed by the user turn, with no model turn, and, the
  resolved stage being one of the seven labels, its counter in the session's scoreboard
  is one more than before, the other counters being unchanged.
\<close>

theorem failure_keeps_effects:
  assumes "session_scores (run qs (startup e0)) (ci_session_id d) = Some board"
    and "reply_outcome e d (run qs (startup e0)) = Inl reason"
  shows "chat_history (snd (chat_handler e d (run qs (startup e0))))
           = chat_history (run qs (startup e0))
               @ [Turn ''user'' [composed_prompt e d (run qs (startup e0))]]
     \<and> (resolved_stage e d (run qs (startup e0)) \<in> set stage_labels \<longrightarrow>
          (\<exists>n board'. map_of board (resolved_stage e d (run qs (startup e0))) = Some n
             \<and> session_scores (snd (chat_handler e d (run qs (startup e0)))) (ci_session_id d)
                  = Some board'
             \<and> map_of board' (resolved_stage e d (run qs (startup e0))) = Some (n + 1)
             \<and> (\<forall>T. T \<noteq> resolved_stage e d (run qs (startup e0))
                    \<longrightarrow> map_of board' T = map_of board T)))"
proof (intro conjI impI)
  let ?st = "run qs (startup e0)"
  show "chat_history (snd (chat_handler e d ?st))
           = chat_history ?st @ [Turn ''user'' [composed_prompt e d ?st]]"
    by (simp add: chat_handler_history [OF assms(1)] assms(2))
  assume "resolved_stage e d ?st \<in> set stage_labels"
  moreover have "map fst board = stage_labels"
    using assms(1) by (rule reachable_keys)
  ultimately have "resolved_stage e d ?st \<in> set (map fst board)"
    by simp
  from chat_bump [OF assms(1) this]
  show "\<exists>n board'. map_of board (resolved_stage e d ?st) = Some n
             \<and> session_scores (snd (chat_handler e d ?st)) (ci_session_id d) = Some board'
             \<and> map_of board' (resolved_stage e d ?st) = Some (n + 1)
             \<and> (\<forall>T. T \<noteq> resolved_stage e d ?st \<longrightarrow> map_of board' T = map_of board T)"
    by blast
qed

theorem failure_keeps_effects_witness:
  "chat_history (snd (chat_handler failing_env (sample_chat ''s1'' ''opening'')
       (run [Start ''s1''] (startup sample_env))))
     = [Turn ''user'' [composed_prompt failing_env (sample_chat ''s1'' ''opening'')
                         (run [Start ''s1''] (startup sample_env))]]
   \<and> (\<exists>board'. session_scores (snd (chat_handler failing_env (sample_chat ''s1'' ''opening'')
          (run [Start ''s1''] (startup sample_env)))) ''s1'' = Some board'
        \<and> map_of board' ''opening'' = Some 1
        \<and> map_of board' ''general'' = Some 0)"
proof -
  let ?d = "sample_chat ''s1'' ''opening''"
  let ?st = "run [Start ''s1''] (startup sample_env)"
  have h1: "session_scores ?st (ci_session_id ?d) = Some zero_scores"
    by (simp add: startup_sample start_session_def sample_chat_def)
  have h2: "reply_outcome failing_env ?d ?st = Inl ''quota''"
    by (rule failing_reply)
  have r: "resolved_stage failing_env ?d ?st = ''opening''"
    by (simp add: resolved_explicit sample_chat_def)
  have h3: "resolved_stage failing_env ?d ?st \<in> set stage_labels"
    unfolding r by (simp add: stage_labels_def)
  have e: "chat_history ?st = []"
    by (simp add: startup_sample start_session_def)
  have s: "ci_session_id ?d = ''s1''"
    by (simp add: sample_chat_def)
  note c = failure_keeps_effects [OF h1 h2, unfolded r e s]
  have 1: "chat_history (snd (chat_handler failing_env ?d ?st))
      = [Turn ''user'' [composed_prompt failing_env ?d ?st]]"
    using c by simp
  have 2: "\<exists>board'. session_scores (snd (chat_handler failing_env ?d ?st)) ''s1'' = Some board'
        \<and> map_of board' ''opening'' = Some 1 \<and> map_of board' ''general'' = Some 0"
    using c h3 [unfolded r] by (auto simp: zero_scores_def)
  from 1 2 show ?thesis by blast
qed

end
